theory Spec2Isabelle
  imports Complex_Main "HOL-Library.AList" "HOL-Library.Log_Nat"
begin

section \<open>Values\<close>

text \<open>
  Exceptions of the Python source as values. \<open>JSONDecodeError\<close> and \<open>PdfError\<close> come from
  the libraries the source calls (\<open>json.loads\<close>, \<open>PdfReader\<close>).
\<close>

datatype error = ValueError | TypeError | KeyError | OverflowError | JSONDecodeError
  | PdfError string

text \<open>
  A Python \<open>float\<close>: a finite value, either infinity, or not-a-number. Every finite
  double is a rational, so \<open>Fin\<close> carries a \<open>rat\<close>; \<open>-0.0\<close> and \<open>0.0\<close> compare equal in Python
  and are both \<open>Fin 0\<close>.
\<close>

datatype pyfloat = Fin rat | PInf | NInf | NaN

text \<open>What \<open>json.loads\<close> can return. A dict keeps its insertion order.\<close>

datatype jval = JNull | JBool bool | JInt int | JFloat pyfloat | JStr string
  | JList "jval list" | JDict "(string \<times> jval) list"

type_synonym pydict = "(string \<times> jval) list"

text \<open>Python truth value, as used by \<open>if x\<close> and \<open>x or y\<close>.\<close>

fun truthy :: "jval \<Rightarrow> bool" where
  "truthy JNull = False"
| "truthy (JBool b) = b"
| "truthy (JInt n) = (n \<noteq> 0)"
| "truthy (JFloat f) = (f \<noteq> Fin 0)"
| "truthy (JStr s) = (s \<noteq> [])"
| "truthy (JList xs) = (xs \<noteq> [])"
| "truthy (JDict d) = (d \<noteq> [])"

definition py_or :: "jval \<Rightarrow> jval \<Rightarrow> jval" where
  "py_or x y = (if truthy x then x else y)"

text \<open>\<open>d.get(key)\<close>: \<open>None\<close> for a missing key. \<open>d[key]\<close>: \<open>KeyError\<close> for a missing key.\<close>

definition dict_get :: "pydict \<Rightarrow> string \<Rightarrow> jval" where
  "dict_get d key = (case map_of d key of None \<Rightarrow> JNull | Some v \<Rightarrow> v)"

definition dict_getitem :: "pydict \<Rightarrow> string \<Rightarrow> error + jval" where
  "dict_getitem d key = (case map_of d key of None \<Rightarrow> Inl KeyError | Some v \<Rightarrow> Inr v)"

section \<open>Numbers\<close>

text \<open>
  \<open>float(n)\<close> for an int: exact below \<open>2^53\<close>, otherwise rounded to 53 significant bits,
  ties to even; \<open>OverflowError\<close> when the rounded value does not fit a double.
\<close>

definition int_to_float :: "int \<Rightarrow> error + pyfloat" where
  "int_to_float n =
     (let a = \<bar>n\<bar> in
      if a < 2 ^ 53 then Inr (Fin (of_int n))
      else
        let e = nat (bitlen a - 53);
            q = a div 2 ^ e;
            r = a mod 2 ^ e;
            h = 2 ^ (e - 1);
            q' = (if h < r \<or> (r = h \<and> odd q) then q + 1 else q);
            v = q' * 2 ^ e
        in if 2 ^ 1024 \<le> v then Inl OverflowError else Inr (Fin (of_int (sgn n * v))))"

text \<open>
  \<open>float(s)\<close> for a str is Python's own parser; it is a parameter of the model:
  \<open>None\<close> is \<open>ValueError\<close>.
\<close>

type_synonym str_to_float = "string \<Rightarrow> pyfloat option"

fun py_float :: "str_to_float \<Rightarrow> jval \<Rightarrow> error + pyfloat" where
  "py_float sf JNull = Inl TypeError"
| "py_float sf (JBool b) = Inr (Fin (if b then 1 else 0))"
| "py_float sf (JInt n) = int_to_float n"
| "py_float sf (JFloat f) = Inr f"
| "py_float sf (JStr s) = (case sf s of None \<Rightarrow> Inl ValueError | Some f \<Rightarrow> Inr f)"
| "py_float sf (JList xs) = Inl TypeError"
| "py_float sf (JDict d) = Inl TypeError"

text \<open>The number a value compares as; \<open>bool\<close> is a subclass of \<open>int\<close>.\<close>

fun num_of :: "jval \<Rightarrow> pyfloat option" where
  "num_of (JBool b) = Some (Fin (if b then 1 else 0))"
| "num_of (JInt n) = Some (Fin (of_int n))"
| "num_of (JFloat f) = Some f"
| "num_of JNull = None"
| "num_of (JStr s) = None"
| "num_of (JList xs) = None"
| "num_of (JDict d) = None"

text \<open>IEEE comparisons: not-a-number is neither equal to nor below anything.\<close>

definition flt_eq :: "pyfloat \<Rightarrow> pyfloat \<Rightarrow> bool" where
  "flt_eq a b = (if a = NaN then False else if b = NaN then False else a = b)"

fun flt_lt :: "pyfloat \<Rightarrow> pyfloat \<Rightarrow> bool" where
  "flt_lt (Fin a) (Fin b) = (a < b)"
| "flt_lt (Fin a) PInf = True"
| "flt_lt NInf (Fin b) = True"
| "flt_lt NInf PInf = True"
| "flt_lt a b = False"

text \<open>
  \<open>x == y\<close> and \<open>x < y\<close>. Two numbers compare by value (int against float exactly).
  \<open>==\<close> never raises; \<open><\<close> raises \<open>TypeError\<close> unless both sides are numbers (the order
  on two strs or two lists is not needed: \<open>due\<close> and \<open>total\<close> are numbers when compared).
\<close>

definition py_eq :: "jval \<Rightarrow> jval \<Rightarrow> bool" where
  "py_eq x y = (case (num_of x, num_of y) of (Some a, Some b) \<Rightarrow> flt_eq a b | _ \<Rightarrow> x = y)"

definition py_lt :: "jval \<Rightarrow> jval \<Rightarrow> error + bool" where
  "py_lt x y = (case (num_of x, num_of y) of (Some a, Some b) \<Rightarrow> Inr (flt_lt a b)
                | _ \<Rightarrow> Inl TypeError)"

section \<open>validate_invoice_data\<close>

definition amounts :: "string list" where
  "amounts = [''subtotal_amount'', ''tax_amount'', ''discount_amount'', ''total_amount'',
              ''amount_due'']"

text \<open>
  The loop \<open>for key in amounts: if data_dict.get(key): data_dict[key] = float(data_dict[key])\<close>.
  The dict is mutated in place, so an exception leaves the assignments made so far: the
  result is the dict reached and the exception, if any.
\<close>

fun convert_amounts :: "str_to_float \<Rightarrow> string list \<Rightarrow> pydict \<Rightarrow> pydict \<times> error option" where
  "convert_amounts sf [] d = (d, None)"
| "convert_amounts sf (key # keys) d =
     (if truthy (dict_get d key) then
        (case dict_getitem d key of
           Inl e \<Rightarrow> (d, Some e)
         | Inr v \<Rightarrow>
             (case py_float sf v of
                Inl e \<Rightarrow> (d, Some e)
              | Inr f \<Rightarrow> convert_amounts sf keys (AList.update key (JFloat f) d)))
      else convert_amounts sf keys d)"

text \<open>The \<open>if due == 0 / elif due < total / else\<close> chain.\<close>

definition payment_status_of :: "jval \<Rightarrow> jval \<Rightarrow> error + string" where
  "payment_status_of due total' =
     (if py_eq due (JInt 0) then Inr ''paid''
      else (case py_lt due total' of
              Inl e \<Rightarrow> Inl e
            | Inr lt \<Rightarrow> if lt then Inr ''partial'' else Inr ''unpaid''))"

text \<open>
  The whole function: the \<open>try\<close> body, and the \<open>except Exception\<close> that logs a warning
  and falls through to \<open>return data_dict\<close>. The result is the dict returned (the argument,
  mutated) and the warnings logged. \<open>total'\<close> is the local \<open>total\<close>.
\<close>

definition validate_invoice_data :: "str_to_float \<Rightarrow> pydict \<Rightarrow> pydict \<times> error list" where
  "validate_invoice_data sf data_dict =
     (case convert_amounts sf amounts data_dict of
        (d, Some e) \<Rightarrow> (d, [e])
      | (d, None) \<Rightarrow>
          (let subtotal = py_or (dict_get d ''subtotal_amount'') (JInt 0);
               tax = py_or (dict_get d ''tax_amount'') (JInt 0);
               discount = py_or (dict_get d ''discount_amount'') (JInt 0);
               total' = py_or (dict_get d ''total_amount'') (JInt 0);
               due = py_or (dict_get d ''amount_due'') total'
           in case payment_status_of due total' of
                Inl e \<Rightarrow> (d, [e])
              | Inr s \<Rightarrow> (AList.update ''payment_status'' (JStr s) d, [])))"

section \<open>extract_invoice_data\<close>

text \<open>
  \<open>s.find(c)\<close> and \<open>s.rfind(c)\<close> for a one-character \<open>c\<close>: an index, or \<open>-1\<close>. The braces
  looked for are single characters whether a string is read as code points or as bytes,
  so the slice taken is the same text in both readings.
\<close>

fun py_find :: "'a \<Rightarrow> 'a list \<Rightarrow> int" where
  "py_find c [] = - 1"
| "py_find c (x # xs) =
     (if x = c then 0 else (let i = py_find c xs in if i = - 1 then - 1 else i + 1))"

definition py_rfind :: "'a \<Rightarrow> 'a list \<Rightarrow> int" where
  "py_rfind c s = (let i = py_find c (rev s) in if i = - 1 then - 1 else int (length s) - 1 - i)"

text \<open>\<open>s[a:b]\<close>: a negative bound counts from the end, and both are clipped to the string.\<close>

definition py_slice :: "'a list \<Rightarrow> int \<Rightarrow> int \<Rightarrow> 'a list" where
  "py_slice s a b =
     (let n = int (length s);
          lo = (if a < 0 then max (a + n) 0 else min a n);
          hi = (if b < 0 then max (b + n) 0 else min b n)
      in take (nat (hi - lo)) (drop (nat lo) s))"

text \<open>The lines under \<open># Extract JSON safely\<close>.\<close>

definition json_string :: "string \<Rightarrow> string" where
  "json_string full_response =
     (let start_index = py_find (CHR ''{'') full_response;
          end_index = py_rfind (CHR ''}'') full_response + 1
      in if start_index \<noteq> - 1 then py_slice full_response start_index end_index
         else full_response)"

text \<open>
  What the function reaches outside itself: the module-level \<open>client\<close> (\<open>None\<close> when no API
  key is configured), here as the chat-completion call on the prompt built from the
  invoice text, giving the reply's content or the \<open>str\<close> of the exception raised inside the
  \<open>try\<close> (by the call, or by \<open>find\<close> on a reply without content); Python's
  \<open>float\<close> on a str; and \<open>json.loads\<close> and \<open>json.dumps\<close>.
\<close>

record services =
  client :: "(string \<Rightarrow> string + string) option"
  str_float :: str_to_float
  json_loads :: "string \<Rightarrow> error + jval"
  json_dumps :: "jval \<Rightarrow> string"

definition extract_invoice_data :: "services \<Rightarrow> string \<Rightarrow> string" where
  "extract_invoice_data sv text =
     (case client sv of
        None \<Rightarrow> json_dumps sv (JDict [(''error'', JStr ''API key not configured'')])
      | Some chat \<Rightarrow>
          (case chat text of
             Inr full_response \<Rightarrow> json_string full_response
           | Inl msg \<Rightarrow>
               json_dumps sv (JDict [(''error'', JStr (''API call failed: '' @ msg))])))"

section \<open>process_invoices\<close>

text \<open>
  An uploaded file: its name, and what \<open>PdfReader\<close> makes of its content, an exception or
  the pages, each page's \<open>extract_text()\<close> being an exception or a text.
\<close>

record upload =
  name :: string
  pdf :: "error + (error + string) list"

fun page_texts :: "(error + string) list \<Rightarrow> string \<Rightarrow> error + string" where
  "page_texts [] text = Inr text"
| "page_texts (page # pages) text =
     (case page of
        Inl e \<Rightarrow> Inl e
      | Inr t \<Rightarrow> page_texts pages (text @ t @ [CHR 0x0A]))"

definition read_pdf :: "upload \<Rightarrow> error + string" where
  "read_pdf file = (case pdf file of Inl e \<Rightarrow> Inl e | Inr pages \<Rightarrow> page_texts pages [])"

text \<open>The two things the loop accumulates; progress bar and messages are display only.\<close>

record batch =
  data :: "pydict list"
  processed_files :: nat

text \<open>
  The \<open>try\<close> body for one file: an exception, or the state it leaves (unchanged after
  \<open>continue\<close>). Only a dict passes: for any other decoded value one of \<open>"error" in data_dict\<close>,
  \<open>data_dict['error']\<close> and \<open>data_dict['source_file'] = ...\<close> raises \<open>TypeError\<close>.
\<close>

definition try_file :: "services \<Rightarrow> upload \<Rightarrow> batch \<Rightarrow> error + batch" where
  "try_file sv file st =
     (case read_pdf file of
        Inl e \<Rightarrow> Inl e
      | Inr pdf_text \<Rightarrow>
          (let extracted_json = extract_invoice_data sv pdf_text in
           case json_loads sv extracted_json of
             Inl e \<Rightarrow> Inl e
           | Inr v \<Rightarrow>
               (case v of
                  JDict data_dict \<Rightarrow>
                    if map_of data_dict ''error'' \<noteq> None then Inr st
                    else
                      (let data_dict1 = fst (validate_invoice_data (str_float sv) data_dict);
                           data_dict2 = AList.update ''source_file'' (JStr (name file)) data_dict1
                       in Inr (st\<lparr>data := data st @ [data_dict2],
                                  processed_files := processed_files st + 1\<rparr>))
                | _ \<Rightarrow> Inl TypeError)))"

text \<open>The \<open>for\<close> loop: \<open>except Exception\<close> reports the file and goes on to the next one.\<close>

fun process_loop :: "services \<Rightarrow> upload list \<Rightarrow> batch \<Rightarrow> batch" where
  "process_loop sv [] st = st"
| "process_loop sv (file # files) st =
     process_loop sv files (case try_file sv file st of Inl e \<Rightarrow> st | Inr st' \<Rightarrow> st')"

definition process_invoices :: "services \<Rightarrow> upload list \<Rightarrow> batch" where
  "process_invoices sv uploaded_files =
     process_loop sv uploaded_files \<lparr>data = [], processed_files = 0\<rparr>"

section \<open>Vocabulary of the statements\<close>

text \<open>A numeric field whose conversion does not raise: it is falsy (and skipped), or
  \<open>float\<close> accepts it.\<close>

definition field_ok :: "str_to_float \<Rightarrow> pydict \<Rightarrow> string \<Rightarrow> bool" where
  "field_ok sf d key =
     (if truthy (dict_get d key)
      then (case py_float sf (dict_get d key) of Inl e \<Rightarrow> False | Inr f \<Rightarrow> True)
      else True)"

text \<open>What the loop leaves in a field when its conversion does not raise.\<close>

definition coerced_value :: "str_to_float \<Rightarrow> pydict \<Rightarrow> string \<Rightarrow> jval option" where
  "coerced_value sf d key =
     (if truthy (dict_get d key)
      then (case py_float sf (dict_get d key) of Inl e \<Rightarrow> map_of d key | Inr f \<Rightarrow> Some (JFloat f))
      else map_of d key)"

text \<open>The number a field stands for after the loop in \<open>data_dict.get(key) or 0\<close>.\<close>

definition amount_number :: "str_to_float \<Rightarrow> pydict \<Rightarrow> string \<Rightarrow> pyfloat" where
  "amount_number sf d key =
     (if truthy (dict_get d key)
      then (case py_float sf (dict_get d key) of Inl e \<Rightarrow> Fin 0 | Inr f \<Rightarrow> f)
      else Fin 0)"

text \<open>The local \<open>total\<close> as a number.\<close>

definition total_number :: "str_to_float \<Rightarrow> pydict \<Rightarrow> pyfloat" where
  "total_number sf d = amount_number sf d ''total_amount''"

text \<open>The local \<open>due\<close> as a number: \<open>data_dict.get("amount_due") or total\<close>.\<close>

definition due_number :: "str_to_float \<Rightarrow> pydict \<Rightarrow> pyfloat" where
  "due_number sf d =
     (if amount_number sf d ''amount_due'' = Fin 0 then total_number sf d
      else amount_number sf d ''amount_due'')"

text \<open>The \<open>if\<close> chain on numbers.\<close>

definition resolve_status :: "pyfloat \<Rightarrow> pyfloat \<Rightarrow> string" where
  "resolve_status total' due =
     (if flt_eq due (Fin 0) then ''paid''
      else if flt_lt due total' then ''partial'' else ''unpaid'')"

text \<open>No conversion raises.\<close>

definition all_fields_ok :: "str_to_float \<Rightarrow> pydict \<Rightarrow> bool" where
  "all_fields_ok sf d = list_all (field_ok sf d) amounts"

text \<open>A \<open>str_to_float\<close> for the worked examples: it agrees with Python's \<open>float\<close> on
  \<open>'100'\<close>, \<open>'-5'\<close>, \<open>'inf'\<close> and \<open>'N/A'\<close>, the strings the examples use.\<close>

definition float_examples :: str_to_float where
  "float_examples s =
     (if s = ''100'' then Some (Fin 100)
      else if s = ''-5'' then Some (Fin (- 5))
      else if s = ''inf'' then Some PInf
      else None)"

text \<open>\<open>amount_due\<close> is missing or null, or a number other than zero.\<close>

definition due_usable :: "str_to_float \<Rightarrow> pydict \<Rightarrow> bool" where
  "due_usable sf d =
     (if dict_get d ''amount_due'' = JNull then True
      else amount_number sf d ''amount_due'' \<noteq> Fin 0)"

text \<open>\<open>amount_due\<close> as a number, defaulted to \<open>total_amount\<close> when missing or null.\<close>

definition defaulted_due :: "str_to_float \<Rightarrow> pydict \<Rightarrow> pyfloat" where
  "defaulted_due sf d =
     (if dict_get d ''amount_due'' = JNull then total_number sf d
      else amount_number sf d ''amount_due'')"

text \<open>The payload returned when no client is configured.\<close>

definition config_error :: jval where
  "config_error = JDict [(''error'', JStr ''API key not configured'')]"

text \<open>The records a file yields when it is the only one uploaded.\<close>

definition alone :: "services \<Rightarrow> upload \<Rightarrow> pydict list" where
  "alone sv file = data (process_invoices sv [file])"

text \<open>A decoded reply that is a JSON object without the key \<open>error\<close>.\<close>

definition passes_as_record :: "error + jval \<Rightarrow> bool" where
  "passes_as_record r =
     (case r of
        Inl e \<Rightarrow> False
      | Inr v \<Rightarrow> (case v of JDict d \<Rightarrow> map_of d ''error'' = None | _ \<Rightarrow> False))"

text \<open>
  The record of a successful file, stage by stage: the text extraction returns a text, a
  client is configured and its call returns a reply, the slice of the reply decodes to a
  JSON object, and the object has no key \<open>error\<close>. The record is that object validated and
  tagged with the file's name. A file that fails at any stage has none.
\<close>

definition file_record :: "services \<Rightarrow> upload \<Rightarrow> pydict option" where
  "file_record sv file =
     (case read_pdf file of
        Inl e \<Rightarrow> None
      | Inr pdf_text \<Rightarrow>
          (case client sv of
             None \<Rightarrow> None
           | Some chat \<Rightarrow>
               (case chat pdf_text of
                  Inl msg \<Rightarrow> None
                | Inr full_response \<Rightarrow>
                    (case json_loads sv (json_string full_response) of
                       Inl e \<Rightarrow> None
                     | Inr v \<Rightarrow>
                         (case v of
                            JDict d \<Rightarrow>
                              if map_of d ''error'' = None
                              then Some (AList.update ''source_file'' (JStr (name file))
                                     (fst (validate_invoice_data (str_float sv) d)))
                              else None
                          | _ \<Rightarrow> None)))))"

text \<open>\<open>json.dumps\<close> on the two error payloads of the examples.\<close>

definition example_dumps :: "jval \<Rightarrow> string" where
  \<open>example_dumps v =
     (if v = JDict [(''error'', JStr ''API key not configured'')]
        then ''{"error": "API key not configured"}''
      else if v = JDict [(''error'', JStr ''API call failed: timeout'')]
        then ''{"error": "API call failed: timeout"}''
      else ''null'')\<close>

text \<open>\<open>json.loads\<close> on the JSON texts of the examples; anything else there is not JSON.\<close>

definition example_loads :: "string \<Rightarrow> error + jval" where
  \<open>example_loads s =
     (if s = ''{"total_amount": 50}'' then Inr (JDict [(''total_amount'', JInt 50)])
      else if s = ''{"total_amount": 20, "amount_due": 5}''
        then Inr (JDict [(''total_amount'', JInt 20), (''amount_due'', JInt 5)])
      else if s = ''{"error": "API key not configured"}''
        then Inr (JDict [(''error'', JStr ''API key not configured'')])
      else if s = ''{"error": "API call failed: timeout"}''
        then Inr (JDict [(''error'', JStr ''API call failed: timeout'')])
      else Inl JSONDecodeError)\<close>

text \<open>A chat service for the examples: it answers the first and the third invoice text with
  JSON and the fifth without, and the call raises for any other.\<close>

definition example_chat :: "string \<Rightarrow> string + string" where
  \<open>example_chat text =
     (if text = ''first'' @ [CHR 0x0A] then Inr ''Here you go: {"total_amount": 50} Thanks.''
      else if text = ''third'' @ [CHR 0x0A] then Inr ''{"total_amount": 20, "amount_due": 5}''
      else if text = ''fifth'' @ [CHR 0x0A] then Inr ''Sorry, no invoice found.''
      else Inl ''timeout'')\<close>

text \<open>The services of the examples, with or without a client.\<close>

definition example_services :: "(string \<Rightarrow> string + string) option \<Rightarrow> services" where
  "example_services c =
     \<lparr>client = c, str_float = float_examples, json_loads = example_loads,
      json_dumps = example_dumps\<rparr>"

text \<open>Three one-page uploads.\<close>

definition example_files :: "upload list" where
  "example_files =
     [\<lparr>name = ''a.pdf'', pdf = Inr [Inr ''first'']\<rparr>,
      \<lparr>name = ''b.pdf'', pdf = Inr [Inr ''second'']\<rparr>,
      \<lparr>name = ''c.pdf'', pdf = Inr [Inr ''third'']\<rparr>]"

text \<open>
  Five uploads: the second one's AI call raises, the fourth cannot be read, and the reply
  for the fifth is not JSON.
\<close>

definition example_batch :: "upload list" where
  "example_batch =
     [\<lparr>name = ''a.pdf'', pdf = Inr [Inr ''first'']\<rparr>,
      \<lparr>name = ''b.pdf'', pdf = Inr [Inr ''second'']\<rparr>,
      \<lparr>name = ''c.pdf'', pdf = Inr [Inr ''third'']\<rparr>,
      \<lparr>name = ''d.pdf'', pdf = Inl (PdfError ''EOF marker not found'')\<rparr>,
      \<lparr>name = ''e.pdf'', pdf = Inr [Inr ''fifth'']\<rparr>]"

section \<open>Lemmas on the conversion loop\<close>

lemma dict_get_update:
  "dict_get (AList.update k v d) k' = (if k' = k then v else dict_get d k')"
  by (simp add: dict_get_def update_conv')

lemma dict_get_cong: "map_of d k = map_of d' k \<Longrightarrow> dict_get d k = dict_get d' k"
  by (simp add: dict_get_def)

lemma truthy_getitem: "truthy (dict_get d k) \<Longrightarrow> dict_getitem d k = Inr (dict_get d k)"
  by (cases "map_of d k") (simp_all add: dict_get_def dict_getitem_def)

lemma truthy_map_of: "truthy (dict_get d k) \<Longrightarrow> map_of d k = Some (dict_get d k)"
  by (cases "map_of d k") (simp_all add: dict_get_def)

lemma convert_step_truthy:
  "truthy (dict_get d key) \<Longrightarrow>
   convert_amounts sf (key # keys) d =
     (case py_float sf (dict_get d key) of
        Inl e \<Rightarrow> (d, Some e)
      | Inr f \<Rightarrow> convert_amounts sf keys (AList.update key (JFloat f) d))"
  by (simp add: truthy_getitem)

lemma convert_frame:
  "k \<notin> set ks \<Longrightarrow> map_of (fst (convert_amounts sf ks d)) k = map_of d k"
proof (induction ks arbitrary: d)
  case Nil
  show ?case by simp
next
  case (Cons key keys)
  then have k: "k \<noteq> key" "k \<notin> set keys" by auto
  show ?case
  proof (cases "truthy (dict_get d key)")
    case False
    then show ?thesis using Cons.IH [OF k(2)] by simp
  next
    case True
    show ?thesis
    proof (cases "py_float sf (dict_get d key)")
      case (Inl e)
      then show ?thesis using True by (simp add: convert_step_truthy del: convert_amounts.simps)
    next
      case (Inr f)
      then show ?thesis
        using True Cons.IH [OF k(2), of "AList.update key (JFloat f) d"] k(1)
        by (simp add: convert_step_truthy update_conv' del: convert_amounts.simps)
    qed
  qed
qed

lemma convert_present:
  "(map_of (fst (convert_amounts sf ks d)) k = None) = (map_of d k = None)"
proof (induction ks arbitrary: d)
  case Nil
  show ?case by simp
next
  case (Cons key keys)
  show ?case
  proof (cases "truthy (dict_get d key)")
    case False
    then show ?thesis using Cons.IH by simp
  next
    case True
    show ?thesis
    proof (cases "py_float sf (dict_get d key)")
      case (Inl e)
      then show ?thesis using True by (simp add: convert_step_truthy del: convert_amounts.simps)
    next
      case (Inr f)
      then show ?thesis
        using True Cons.IH [of "AList.update key (JFloat f) d"] truthy_map_of [OF True]
        by (auto simp add: convert_step_truthy update_conv' simp del: convert_amounts.simps)
    qed
  qed
qed

lemma field_ok_update:
  "k \<noteq> key \<Longrightarrow> field_ok sf (AList.update key v d) k = field_ok sf d k"
  by (simp add: field_ok_def dict_get_update)

lemma coerced_value_update:
  "k \<noteq> key \<Longrightarrow> coerced_value sf (AList.update key v d) k = coerced_value sf d k"
  by (simp add: coerced_value_def dict_get_update update_conv' split: sum.splits)

lemma convert_ok:
  "distinct ks \<Longrightarrow> (\<And>k. k \<in> set ks \<Longrightarrow> field_ok sf d k) \<Longrightarrow>
   snd (convert_amounts sf ks d) = None \<and>
   (\<forall>k\<in>set ks. map_of (fst (convert_amounts sf ks d)) k = coerced_value sf d k)"
proof (induction ks arbitrary: d)
  case Nil
  show ?case by simp
next
  case (Cons key keys)
  have dk: "key \<notin> set keys" "distinct keys" using Cons.prems(1) by auto
  show ?case
  proof (cases "truthy (dict_get d key)")
    case False
    have "snd (convert_amounts sf keys d) = None \<and>
      (\<forall>k\<in>set keys. map_of (fst (convert_amounts sf keys d)) k = coerced_value sf d k)"
      using Cons.IH [OF dk(2), of d] Cons.prems(2) by simp
    moreover have "map_of (fst (convert_amounts sf keys d)) key = coerced_value sf d key"
      using False convert_frame [OF dk(1)] by (simp add: coerced_value_def)
    ultimately show ?thesis using False by simp
  next
    case True
    have "field_ok sf d key" using Cons.prems(2) by simp
    then obtain f where f: "py_float sf (dict_get d key) = Inr f"
      using True by (auto simp: field_ok_def split: sum.splits)
    let ?d = "AList.update key (JFloat f) d"
    have ok: "\<And>k. k \<in> set keys \<Longrightarrow> field_ok sf ?d k"
      using Cons.prems(2) dk(1) by (metis field_ok_update list.set_intros(2))
    have ih: "snd (convert_amounts sf keys ?d) = None \<and>
      (\<forall>k\<in>set keys. map_of (fst (convert_amounts sf keys ?d)) k = coerced_value sf ?d k)"
      using Cons.IH [OF dk(2), of ?d] ok by simp
    have same: "\<forall>k\<in>set keys. coerced_value sf ?d k = coerced_value sf d k"
      using dk(1) by (metis coerced_value_update)
    have key: "map_of (fst (convert_amounts sf keys ?d)) key = coerced_value sf d key"
      using True f convert_frame [OF dk(1), of sf ?d] by (simp add: coerced_value_def update_conv')
    have step: "convert_amounts sf (key # keys) d = convert_amounts sf keys ?d"
      using True f by (simp add: convert_step_truthy del: convert_amounts.simps)
    show ?thesis unfolding step using ih same key by simp
  qed
qed

lemma convert_append:
  "convert_amounts sf (xs @ ys) d =
     (case convert_amounts sf xs d of
        (d1, Some e) \<Rightarrow> (d1, Some e)
      | (d1, None) \<Rightarrow> convert_amounts sf ys d1)"
  by (induction xs arbitrary: d) (auto split: sum.splits prod.splits option.splits)

lemma convert_idem:
  "distinct ks \<Longrightarrow>
   convert_amounts sf ks (fst (convert_amounts sf ks d)) = convert_amounts sf ks d"
proof (induction ks arbitrary: d)
  case Nil
  show ?case by simp
next
  case (Cons key keys)
  have dk: "key \<notin> set keys" "distinct keys" using Cons.prems(1) by auto
  show ?case
  proof (cases "truthy (dict_get d key)")
    case False
    let ?r = "fst (convert_amounts sf keys d)"
    have "dict_get ?r key = dict_get d key"
      using convert_frame [OF dk(1)] by (rule dict_get_cong)
    then have "\<not> truthy (dict_get ?r key)" using False by simp
    then show ?thesis using False Cons.IH [OF dk(2), of d] by simp
  next
    case True
    show ?thesis
    proof (cases "py_float sf (dict_get d key)")
      case (Inl e)
      then show ?thesis using True by (simp add: convert_step_truthy del: convert_amounts.simps)
    next
      case (Inr f)
      let ?d = "AList.update key (JFloat f) d"
      let ?r = "fst (convert_amounts sf keys ?d)"
      have step: "convert_amounts sf (key # keys) d = convert_amounts sf keys ?d"
        using True Inr by (simp add: convert_step_truthy del: convert_amounts.simps)
      have m: "map_of ?r key = Some (JFloat f)"
        using convert_frame [OF dk(1), of sf ?d] by (simp add: update_conv')
      then have g: "dict_get ?r key = JFloat f" by (simp add: dict_get_def)
      have "convert_amounts sf (key # keys) ?r = convert_amounts sf keys ?r"
      proof (cases "f = Fin 0")
        case True
        then show ?thesis using g by simp
      next
        case False
        then have "truthy (dict_get ?r key)" using g by simp
        then show ?thesis using g m
          by (simp add: convert_step_truthy AList.update_triv del: convert_amounts.simps)
      qed
      then show ?thesis unfolding step using Cons.IH [OF dk(2), of ?d] by simp
    qed
  qed
qed

lemma distinct_amounts: "distinct amounts"
  by (simp add: amounts_def)

lemma payment_status_of_num:
  "num_of due = Some dn \<Longrightarrow> num_of t = Some tn \<Longrightarrow>
   payment_status_of due t = Inr (resolve_status tn dn)"
  by (simp add: payment_status_of_def resolve_status_def py_eq_def py_lt_def)

lemma get_after:
  assumes "field_ok sf d k" and "map_of d1 k = coerced_value sf d k"
  shows "truthy (dict_get d1 k) \<Longrightarrow> dict_get d1 k = JFloat (amount_number sf d k)"
    and "\<not> truthy (dict_get d1 k) \<Longrightarrow> amount_number sf d k = Fin 0"
proof -
  show "dict_get d1 k = JFloat (amount_number sf d k)" if "truthy (dict_get d1 k)"
  proof (cases "truthy (dict_get d k)")
    case True
    then show ?thesis using assms
      by (auto simp: field_ok_def coerced_value_def amount_number_def dict_get_def
          split: sum.splits)
  next
    case False
    then have "dict_get d1 k = dict_get d k"
      using assms(2) by (simp add: coerced_value_def dict_get_def)
    then show ?thesis using that False by simp
  qed
  show "amount_number sf d k = Fin 0" if "\<not> truthy (dict_get d1 k)"
  proof (cases "truthy (dict_get d k)")
    case True
    then show ?thesis using assms that
      by (auto simp: field_ok_def coerced_value_def amount_number_def dict_get_def
          split: sum.splits)
  next
    case False
    then show ?thesis by (simp add: amount_number_def)
  qed
qed

lemma validate_ok:
  assumes "all_fields_ok sf d"
  shows "validate_invoice_data sf d =
     (AList.update ''payment_status''
        (JStr (resolve_status (total_number sf d) (due_number sf d)))
        (fst (convert_amounts sf amounts d)), [])"
proof -
  define d1 where "d1 = fst (convert_amounts sf amounts d)"
  have ok: "\<And>k. k \<in> set amounts \<Longrightarrow> field_ok sf d k"
    using assms by (simp add: all_fields_ok_def list_all_iff)
  have conv: "snd (convert_amounts sf amounts d) = None"
    and look: "\<And>k. k \<in> set amounts \<Longrightarrow> map_of d1 k = coerced_value sf d k"
    using convert_ok [OF distinct_amounts, of sf d] ok by (simp_all add: d1_def)
  have c: "convert_amounts sf amounts d = (d1, None)"
    using conv by (simp add: prod_eq_iff d1_def)
  have ta: "''total_amount'' \<in> set amounts" and ad: "''amount_due'' \<in> set amounts"
    by (simp_all add: amounts_def)
  let ?total = "py_or (dict_get d1 ''total_amount'') (JInt 0)"
  let ?due = "py_or (dict_get d1 ''amount_due'') ?total"
  have nt: "num_of ?total = Some (total_number sf d)"
    using get_after [OF ok [OF ta] look [OF ta]]
    by (cases "truthy (dict_get d1 ''total_amount'')") (simp_all add: py_or_def total_number_def)
  have nd: "num_of ?due = Some (due_number sf d)"
  proof (cases "truthy (dict_get d1 ''amount_due'')")
    case True
    then have g: "dict_get d1 ''amount_due'' = JFloat (amount_number sf d ''amount_due'')"
      using get_after(1) [OF ok [OF ad] look [OF ad]] by simp
    then have "amount_number sf d ''amount_due'' \<noteq> Fin 0" using True by simp
    then show ?thesis using True g by (simp add: py_or_def due_number_def)
  next
    case False
    then have "amount_number sf d ''amount_due'' = Fin 0"
      using get_after(2) [OF ok [OF ad] look [OF ad]] by simp
    then show ?thesis using False nt by (simp add: py_or_def due_number_def)
  qed
  have "payment_status_of ?due ?total =
      Inr (resolve_status (total_number sf d) (due_number sf d))"
    using nd nt by (rule payment_status_of_num)
  then have "validate_invoice_data sf d =
     (AList.update ''payment_status''
        (JStr (resolve_status (total_number sf d) (due_number sf d))) d1, [])"
    by (simp add: validate_invoice_data_def c Let_def)
  then show ?thesis by (simp add: d1_def)
qed

lemma validate_fail:
  assumes "convert_amounts sf amounts d = (d1, Some e)"
  shows "validate_invoice_data sf d = (d1, [e])"
  using assms by (simp add: validate_invoice_data_def)

lemma update_swap_present:
  "k \<noteq> k' \<Longrightarrow> map_of al k' \<noteq> None \<Longrightarrow>
   AList.update k v (AList.update k' v' al) = AList.update k' v' (AList.update k v al)"
  by (induction al) auto

lemma convert_update_other:
  "k \<notin> set ks \<Longrightarrow>
   convert_amounts sf ks (AList.update k v d) =
     (AList.update k v (fst (convert_amounts sf ks d)), snd (convert_amounts sf ks d))"
proof (induction ks arbitrary: d)
  case Nil
  show ?case by simp
next
  case (Cons key keys)
  then have k: "k \<noteq> key" "k \<notin> set keys" by auto
  have g: "dict_get (AList.update k v d) key = dict_get d key"
    using k(1) by (simp add: dict_get_update)
  show ?case
  proof (cases "truthy (dict_get d key)")
    case False
    then show ?thesis using g Cons.IH [OF k(2)] by simp
  next
    case True
    then have t: "truthy (dict_get (AList.update k v d) key)" using g by simp
    show ?thesis
    proof (cases "py_float sf (dict_get d key)")
      case (Inl e)
      then show ?thesis
        using True t g
        by (simp add: convert_step_truthy del: convert_amounts.simps)
    next
      case (Inr f)
      have "map_of d key \<noteq> None" using truthy_map_of [OF True] by simp
      then have sw: "AList.update key (JFloat f) (AList.update k v d) =
          AList.update k v (AList.update key (JFloat f) d)"
        using k(1) update_swap_present [of k key d v "JFloat f"] by simp
      show ?thesis
        using True t g Inr Cons.IH [OF k(2), of "AList.update key (JFloat f) d"]
        by (simp add: convert_step_truthy sw del: convert_amounts.simps)
    qed
  qed
qed

lemma ps_notin_amounts: "''payment_status'' \<notin> set amounts"
  by (simp add: amounts_def)

lemma convert_all_ok:
  assumes "all_fields_ok sf d"
  shows "snd (convert_amounts sf amounts d) = None"
    and "k \<in> set amounts \<Longrightarrow> map_of (fst (convert_amounts sf amounts d)) k = coerced_value sf d k"
proof -
  have ok: "\<And>k. k \<in> set amounts \<Longrightarrow> field_ok sf d k"
    using assms by (simp add: all_fields_ok_def list_all_iff)
  show "snd (convert_amounts sf amounts d) = None"
    using convert_ok [OF distinct_amounts, of sf d] ok by simp
  show "map_of (fst (convert_amounts sf amounts d)) k = coerced_value sf d k" if "k \<in> set amounts"
    using convert_ok [OF distinct_amounts, of sf d] ok that by simp
qed

lemma validate_ok_status:
  "all_fields_ok sf d \<Longrightarrow>
   map_of (fst (validate_invoice_data sf d)) ''payment_status'' =
     Some (JStr (resolve_status (total_number sf d) (due_number sf d)))"
  by (simp add: validate_ok update_conv')

lemma validate_ok_amount:
  "all_fields_ok sf d \<Longrightarrow> k \<in> set amounts \<Longrightarrow>
   map_of (fst (validate_invoice_data sf d)) k = coerced_value sf d k"
  using ps_notin_amounts by (auto simp add: validate_ok update_conv' convert_all_ok(2))

lemma flt_lt_irrefl: "flt_lt t t = False"
  by (cases t) simp_all

lemma resolve_status_same:
  "resolve_status t t = (if t = Fin 0 then ''paid'' else ''unpaid'')"
  by (auto simp: resolve_status_def flt_eq_def flt_lt_irrefl)

lemma due_number_defaulted: "due_usable sf d \<Longrightarrow> due_number sf d = defaulted_due sf d"
  by (auto simp: due_usable_def due_number_def defaulted_due_def amount_number_def
      split: if_splits)

section \<open>Lemmas on find, slices and the batch loop\<close>

lemma py_find_absent: "c \<notin> set s \<Longrightarrow> py_find c s = - 1"
  by (induction s) auto

lemma py_find_first: "c \<notin> set pre \<Longrightarrow> py_find c (pre @ c # rest) = int (length pre)"
  by (induction pre) (auto simp: Let_def)

lemma py_rfind_last: "c \<notin> set post \<Longrightarrow> py_rfind c (pre @ c # post) = int (length pre)"
  using py_find_first [of c "rev post" "rev pre"] by (simp add: py_rfind_def)

lemma py_slice_middle:
  "py_slice (pre @ mid @ post) (int (length pre)) (int (length pre) + int (length mid)) = mid"
  by (simp add: py_slice_def min_def)

lemma try_file_step:
  "(case try_file sv file st of Inl e \<Rightarrow> st | Inr st' \<Rightarrow> st') =
     st\<lparr>data := data st @ alone sv file,
        processed_files := processed_files st + length (alone sv file)\<rparr>"
  by (simp add: alone_def process_invoices_def try_file_def Let_def
      split: sum.splits jval.splits)

lemma process_loop_steps:
  "process_loop sv files st =
     st\<lparr>data := data st @ concat (map (alone sv) files),
        processed_files := processed_files st + length (concat (map (alone sv) files))\<rparr>"
proof (induction files arbitrary: st)
  case Nil
  show ?case by simp
next
  case (Cons f fs)
  show ?case
    by (simp only: process_loop.simps try_file_step Cons.IH) simp
qed

lemma alone_unconfigured:
  assumes "client sv = None"
    and "json_loads sv (json_dumps sv config_error) = Inr config_error"
  shows "alone sv file = []"
proof -
  have e: "\<And>text. extract_invoice_data sv text = json_dumps sv config_error"
    using assms(1) by (simp add: extract_invoice_data_def config_error_def)
  show ?thesis
    using assms(2)
    by (simp add: alone_def process_invoices_def try_file_def e Let_def config_error_def
        split: sum.splits)
qed

lemma concat_option_map_filter:
  "concat (map (\<lambda>x. case g x of None \<Rightarrow> [] | Some r \<Rightarrow> [r]) xs) = List.map_filter g xs"
  by (induction xs) (simp_all add: map_filter_simps split: option.splits)

lemma alone_error_payload:
  assumes "\<not> passes_as_record (json_loads sv (json_dumps sv (JDict [(''error'', JStr m)])))"
    and "extract_invoice_data sv pdf_text = json_dumps sv (JDict [(''error'', JStr m)])"
    and "read_pdf file = Inr pdf_text"
  shows "alone sv file = []"
  using assms
  by (auto simp add: alone_def process_invoices_def try_file_def Let_def passes_as_record_def
      split: sum.splits jval.splits)

lemma alone_file_record:
  assumes "\<And>m. \<not> passes_as_record (json_loads sv (json_dumps sv (JDict [(''error'', JStr m)])))"
  shows "alone sv file = (case file_record sv file of None \<Rightarrow> [] | Some r \<Rightarrow> [r])"
proof (cases "read_pdf file")
  case (Inl e)
  then show ?thesis
    by (simp add: alone_def process_invoices_def try_file_def file_record_def)
next
  case (Inr pdf_text)
  show ?thesis
  proof (cases "client sv")
    case None
    then have "extract_invoice_data sv pdf_text =
        json_dumps sv (JDict [(''error'', JStr ''API key not configured'')])"
      by (simp add: extract_invoice_data_def)
    then have "alone sv file = []"
      using alone_error_payload [OF assms _ Inr] by blast
    then show ?thesis using Inr None by (simp add: file_record_def)
  next
    case (Some chat)
    show ?thesis
    proof (cases "chat pdf_text")
      case (Inl msg)
      then have "extract_invoice_data sv pdf_text =
          json_dumps sv (JDict [(''error'', JStr (''API call failed: '' @ msg))])"
        using Some by (simp add: extract_invoice_data_def)
      then have "alone sv file = []"
        using alone_error_payload [OF assms _ Inr] by blast
      then show ?thesis using Inr Some Inl by (simp add: file_record_def)
    next
      case (Inr full_response)
      then have "extract_invoice_data sv pdf_text = json_string full_response"
        using Some by (simp add: extract_invoice_data_def)
      then show ?thesis
        using \<open>read_pdf file = Inr pdf_text\<close> Some Inr
        by (simp add: alone_def process_invoices_def try_file_def file_record_def Let_def
            split: sum.splits jval.splits)
    qed
  qed
qed

section \<open>Properties of validate_invoice_data\<close>

text \<open>Three of the four examples of the resolver come out as the specification has them.\<close>

lemma other_status_examples:
  "map_of (fst (validate_invoice_data sf [(''total_amount'', JInt 100), (''amount_due'', JInt 100)]))
     ''payment_status'' = Some (JStr ''unpaid'')"
  "map_of (fst (validate_invoice_data sf [(''total_amount'', JInt 100), (''amount_due'', JInt 40)]))
     ''payment_status'' = Some (JStr ''partial'')"
  "map_of (fst (validate_invoice_data sf [(''total_amount'', JInt 0), (''amount_due'', JInt 0)]))
     ''payment_status'' = Some (JStr ''paid'')"
  by (simp_all add: validate_invoice_data_def amounts_def dict_get_def dict_getitem_def
      int_to_float_def py_or_def payment_status_of_def py_eq_def py_lt_def flt_eq_def Let_def)

text \<open>
  Claim C1, at the input \<open>{"total_amount": 100, "amount_due": 0}\<close>: a due amount of zero is
  falsy, so \<open>due\<close> falls back to \<open>total\<close> and the status set is \<open>unpaid\<close>, where the
  claim has \<open>paid\<close>.
\<close>

theorem zero_due_resolves_unpaid:
  "map_of (fst (validate_invoice_data sf [(''total_amount'', JInt 100), (''amount_due'', JInt 0)]))
     ''payment_status'' = Some (JStr ''unpaid'')"
  by (simp add: validate_invoice_data_def amounts_def dict_get_def dict_getitem_def int_to_float_def
      py_or_def payment_status_of_def py_eq_def py_lt_def flt_eq_def)

text \<open>
  Claim C7 fails as stated: the function is not free of side effects. At
  \<open>{"total_amount": "100"}\<close> the dict returned, which is the argument itself, is no longer
  what was passed in; at \<open>{"subtotal_amount": "N/A"}\<close> a warning is logged.
\<close>

theorem validate_mutates_and_logs:
  "fst (validate_invoice_data float_examples [(''total_amount'', JStr ''100'')]) \<noteq>
     [(''total_amount'', JStr ''100'')] \<and>
   snd (validate_invoice_data float_examples [(''subtotal_amount'', JStr ''N/A'')]) = [ValueError]"
  by code_simp

text \<open>
  Claim C7, amended: validating the returned record once more returns the same record and
  logs the same warnings; in particular \<open>payment_status\<close> is the same.
\<close>

theorem validate_idempotent:
  "validate_invoice_data sf (fst (validate_invoice_data sf d)) = validate_invoice_data sf d"
proof -
  define d1 where "d1 = fst (convert_amounts sf amounts d)"
  have idem: "convert_amounts sf amounts d1 = convert_amounts sf amounts d"
    unfolding d1_def by (rule convert_idem [OF distinct_amounts])
  show ?thesis
  proof (cases "snd (convert_amounts sf amounts d)")
    case (Some e)
    then have c: "convert_amounts sf amounts d = (d1, Some e)"
      by (simp add: prod_eq_iff d1_def)
    then have "validate_invoice_data sf d = (d1, [e])" by (rule validate_fail)
    moreover have "validate_invoice_data sf d1 = (d1, [e])"
      using idem c by (simp add: validate_fail)
    ultimately show ?thesis by simp
  next
    case None
    then have c: "convert_amounts sf amounts d = (d1, None)"
      by (simp add: prod_eq_iff d1_def)
    define tot where "tot = py_or (dict_get d1 ''total_amount'') (JInt 0)"
    define due where "due = py_or (dict_get d1 ''amount_due'') tot"
    have v: "validate_invoice_data sf d =
        (case payment_status_of due tot of
           Inl e \<Rightarrow> (d1, [e])
         | Inr s \<Rightarrow> (AList.update ''payment_status'' (JStr s) d1, []))"
      by (simp add: validate_invoice_data_def c Let_def tot_def due_def)
    have v1: "validate_invoice_data sf d1 =
        (case payment_status_of due tot of
           Inl e \<Rightarrow> (d1, [e])
         | Inr s \<Rightarrow> (AList.update ''payment_status'' (JStr s) d1, []))"
      using idem by (simp add: validate_invoice_data_def c Let_def tot_def due_def)
    show ?thesis
    proof (cases "payment_status_of due tot")
      case (Inl e)
      then show ?thesis using v v1 by simp
    next
      case (Inr s)
      let ?d2 = "AList.update ''payment_status'' (JStr s) d1"
      have c2: "convert_amounts sf amounts ?d2 = (?d2, None)"
        using convert_update_other [OF ps_notin_amounts, of sf "JStr s" d1] idem c by simp
      have g: "dict_get ?d2 ''total_amount'' = dict_get d1 ''total_amount''"
        "dict_get ?d2 ''amount_due'' = dict_get d1 ''amount_due''"
        by (simp_all add: dict_get_update)
      have "validate_invoice_data sf ?d2 = (?d2, [])"
        using Inr by (simp add: validate_invoice_data_def c2 Let_def g tot_def [symmetric] due_def [symmetric])
      then show ?thesis using v Inr by simp
    qed
  qed
qed

text \<open>
  Claim C10: a key other than the five amounts and \<open>payment_status\<close> keeps its value, and
  no key other than \<open>payment_status\<close> is added or removed.
\<close>

theorem validate_frame:
  "k \<noteq> ''payment_status'' \<Longrightarrow>
   (k \<notin> set amounts \<longrightarrow> map_of (fst (validate_invoice_data sf d)) k = map_of d k) \<and>
   ((map_of (fst (validate_invoice_data sf d)) k = None) = (map_of d k = None))"
proof -
  assume k: "k \<noteq> ''payment_status''"
  define d1 where "d1 = fst (convert_amounts sf amounts d)"
  have a: "k \<notin> set amounts \<Longrightarrow> map_of d1 k = map_of d k"
    unfolding d1_def by (rule convert_frame)
  have b: "(map_of d1 k = None) = (map_of d k = None)"
    unfolding d1_def by (rule convert_present)
  have "fst (validate_invoice_data sf d) = d1 \<or>
    (\<exists>s. fst (validate_invoice_data sf d) = AList.update ''payment_status'' s d1)"
    by (auto simp: validate_invoice_data_def d1_def Let_def split: prod.splits option.splits sum.splits)
  then have "map_of (fst (validate_invoice_data sf d)) k = map_of d1 k"
    using k by (auto simp: update_conv')
  then show ?thesis using a b by simp
qed

theorem validate_frame_witness:
  "''vendor_name'' \<noteq> ''payment_status'' \<and> ''vendor_name'' \<notin> set amounts \<and>
   map_of (fst (validate_invoice_data float_examples
     [(''vendor_name'', JStr ''Acme''), (''total_amount'', JStr ''100'')])) ''vendor_name'' =
   Some (JStr ''Acme'')"
proof -
  have h: "''vendor_name'' \<noteq> ''payment_status''" by simp
  have n: "''vendor_name'' \<notin> set amounts" by (simp add: amounts_def)
  show ?thesis
    using h n validate_frame [OF h, of float_examples
      "[(''vendor_name'', JStr ''Acme''), (''total_amount'', JStr ''100'')]"]
    by simp
qed

text \<open>
  Claim C2 fails as stated, at \<open>{"subtotal_amount": "N/A", "total_amount": "100"}\<close>: the
  record comes back as it went in, with \<open>subtotal_amount\<close> still \<open>'N/A'\<close>, \<open>total_amount\<close>
  not converted and no \<open>payment_status\<close>.
\<close>

theorem failed_coercion_counterexample:
  "validate_invoice_data float_examples
     [(''subtotal_amount'', JStr ''N/A''), (''total_amount'', JStr ''100'')] =
   ([(''subtotal_amount'', JStr ''N/A''), (''total_amount'', JStr ''100'')], [ValueError])"
  by code_simp

text \<open>
  Claim C2, amended: when the conversion of a numeric field raises, the fields before it
  in the order of \<open>amounts\<close> having converted, the function still returns, with one warning
  logged; the fields before it hold their converted values, and every other key,
  including the failing field and \<open>payment_status\<close>, is as in the input.
\<close>

theorem coercion_failure_stops:
  assumes "amounts = pre @ k # post"
    and "list_all (field_ok sf d) pre"
    and "truthy (dict_get d k)"
    and "py_float sf (dict_get d k) = Inl e"
  shows "snd (validate_invoice_data sf d) = [e] \<and>
    (\<forall>j\<in>set pre. map_of (fst (validate_invoice_data sf d)) j = coerced_value sf d j) \<and>
    (\<forall>j. j \<notin> set pre \<longrightarrow> map_of (fst (validate_invoice_data sf d)) j = map_of d j)"
proof -
  define d1 where "d1 = fst (convert_amounts sf pre d)"
  have "distinct (pre @ k # post)"
    using distinct_amounts by (simp only: assms(1))
  then have dist: "distinct pre" "k \<notin> set pre" by auto
  have ok: "\<And>j. j \<in> set pre \<Longrightarrow> field_ok sf d j"
    using assms(2) by (simp add: list_all_iff)
  have p: "snd (convert_amounts sf pre d) = None"
    and look: "\<forall>j\<in>set pre. map_of d1 j = coerced_value sf d j"
    using convert_ok [OF dist(1), of sf d] ok by (simp_all add: d1_def)
  have cp: "convert_amounts sf pre d = (d1, None)"
    using p by (simp add: prod_eq_iff d1_def)
  have fr: "\<And>j. j \<notin> set pre \<Longrightarrow> map_of d1 j = map_of d j"
    unfolding d1_def by (rule convert_frame)
  have g: "dict_get d1 k = dict_get d k"
    using fr [OF dist(2)] by (rule dict_get_cong)
  have "convert_amounts sf (k # post) d1 = (d1, Some e)"
    using assms(3,4) g by (simp add: convert_step_truthy del: convert_amounts.simps)
  then have "convert_amounts sf amounts d = (d1, Some e)"
    by (simp add: assms(1) convert_append cp)
  then have "validate_invoice_data sf d = (d1, [e])" by (rule validate_fail)
  then show ?thesis using look fr by simp
qed

theorem coercion_failure_stops_witness:
  "amounts = [''subtotal_amount''] @ ''tax_amount'' #
      [''discount_amount'', ''total_amount'', ''amount_due''] \<and>
   list_all (field_ok float_examples
      [(''subtotal_amount'', JStr ''100''), (''tax_amount'', JStr ''N/A''),
       (''total_amount'', JStr ''100''), (''payment_status'', JStr ''paid'')])
      [''subtotal_amount''] \<and>
   truthy (dict_get
      [(''subtotal_amount'', JStr ''100''), (''tax_amount'', JStr ''N/A''),
       (''total_amount'', JStr ''100''), (''payment_status'', JStr ''paid'')] ''tax_amount'') \<and>
   py_float float_examples (dict_get
      [(''subtotal_amount'', JStr ''100''), (''tax_amount'', JStr ''N/A''),
       (''total_amount'', JStr ''100''), (''payment_status'', JStr ''paid'')] ''tax_amount'') =
     Inl ValueError \<and>
   snd (validate_invoice_data float_examples
      [(''subtotal_amount'', JStr ''100''), (''tax_amount'', JStr ''N/A''),
       (''total_amount'', JStr ''100''), (''payment_status'', JStr ''paid'')]) = [ValueError] \<and>
   map_of (fst (validate_invoice_data float_examples
      [(''subtotal_amount'', JStr ''100''), (''tax_amount'', JStr ''N/A''),
       (''total_amount'', JStr ''100''), (''payment_status'', JStr ''paid'')])) ''total_amount'' =
     Some (JStr ''100'')"
proof -
  let ?d = "[(''subtotal_amount'', JStr ''100''), (''tax_amount'', JStr ''N/A''),
       (''total_amount'', JStr ''100''), (''payment_status'', JStr ''paid'')]"
  have h1: "amounts = [''subtotal_amount''] @ ''tax_amount'' #
      [''discount_amount'', ''total_amount'', ''amount_due'']"
    by (simp add: amounts_def)
  have h2: "list_all (field_ok float_examples ?d) [''subtotal_amount'']"
    by (simp add: field_ok_def dict_get_def float_examples_def)
  have h3: "truthy (dict_get ?d ''tax_amount'')"
    by (simp add: dict_get_def)
  have h4: "py_float float_examples (dict_get ?d ''tax_amount'') = Inl ValueError"
    by (simp add: dict_get_def float_examples_def)
  have "''total_amount'' \<notin> set [''subtotal_amount'']" by simp
  then have "map_of (fst (validate_invoice_data float_examples ?d)) ''total_amount'' =
      map_of ?d ''total_amount''"
    using coercion_failure_stops [OF h1 h2 h3 h4] by blast
  then show ?thesis
    using h1 h2 h3 h4 coercion_failure_stops [OF h1 h2 h3 h4] by simp
qed

text \<open>
  Claim C3 fails as stated, at a record with \<open>total_amount\<close> and \<open>amount_due\<close> both 100, a
  \<open>subtotal_amount\<close> that does not convert and \<open>payment_status\<close> \<open>'paid'\<close>: the status supplied
  is returned.
\<close>

theorem stale_status_counterexample:
  "validate_invoice_data float_examples
     [(''subtotal_amount'', JStr ''N/A''), (''total_amount'', JInt 100),
      (''amount_due'', JInt 100), (''payment_status'', JStr ''paid'')] =
   ([(''subtotal_amount'', JStr ''N/A''), (''total_amount'', JInt 100),
     (''amount_due'', JInt 100), (''payment_status'', JStr ''paid'')], [ValueError])"
  by code_simp

text \<open>
  Claim C3, amended: when no conversion raises and \<open>amount_due\<close> is missing, null or a
  number other than zero, \<open>payment_status\<close> in the result is the status resolved from
  \<open>total_amount\<close> and \<open>amount_due\<close> (defaulted to \<open>total_amount\<close>), whatever the input had.
\<close>

theorem status_recomputed:
  assumes "all_fields_ok sf d" and "due_usable sf d"
  shows "map_of (fst (validate_invoice_data sf d)) ''payment_status'' =
     Some (JStr (resolve_status (total_number sf d) (defaulted_due sf d)))"
  using assms by (simp add: validate_ok_status due_number_defaulted)

theorem status_recomputed_witness:
  "all_fields_ok float_examples
     [(''total_amount'', JStr ''100''), (''amount_due'', JInt 40),
      (''payment_status'', JStr ''paid'')] \<and>
   due_usable float_examples
     [(''total_amount'', JStr ''100''), (''amount_due'', JInt 40),
      (''payment_status'', JStr ''paid'')] \<and>
   map_of (fst (validate_invoice_data float_examples
     [(''total_amount'', JStr ''100''), (''amount_due'', JInt 40),
      (''payment_status'', JStr ''paid'')])) ''payment_status'' = Some (JStr ''partial'')"
proof -
  let ?d = "[(''total_amount'', JStr ''100''), (''amount_due'', JInt 40),
      (''payment_status'', JStr ''paid'')]"
  have h1: "all_fields_ok float_examples ?d"
    by (simp add: all_fields_ok_def amounts_def field_ok_def dict_get_def float_examples_def
        int_to_float_def)
  have h2: "due_usable float_examples ?d"
    by (simp add: due_usable_def amount_number_def dict_get_def int_to_float_def)
  have "resolve_status (total_number float_examples ?d) (defaulted_due float_examples ?d) =
      ''partial''"
    by (simp add: resolve_status_def total_number_def defaulted_due_def amount_number_def
        dict_get_def float_examples_def int_to_float_def flt_eq_def)
  then show ?thesis using h1 h2 status_recomputed [OF h1 h2] by simp
qed

text \<open>
  Claim C4 fails as stated, at \<open>{"total_amount": 50}\<close>: the result has no \<open>amount_due\<close>.
\<close>

theorem missing_due_counterexample:
  "validate_invoice_data float_examples [(''total_amount'', JInt 50)] =
   ([(''total_amount'', JFloat (Fin 50)), (''payment_status'', JStr ''unpaid'')], [])"
  by code_simp

text \<open>
  Claim C4, amended: when \<open>amount_due\<close> is missing or null and no conversion raises, the
  status is resolved with \<open>total_amount\<close> standing for \<open>amount_due\<close> (\<open>unpaid\<close>, or \<open>paid\<close> for a
  total of zero), and the \<open>amount_due\<close> field itself is left as in the input.
\<close>

theorem missing_due_resolved_as_total:
  assumes "all_fields_ok sf d" and "dict_get d ''amount_due'' = JNull"
  shows "map_of (fst (validate_invoice_data sf d)) ''amount_due'' = map_of d ''amount_due'' \<and>
    map_of (fst (validate_invoice_data sf d)) ''payment_status'' =
      Some (JStr (if total_number sf d = Fin 0 then ''paid'' else ''unpaid''))"
proof -
  have ad: "''amount_due'' \<in> set amounts" by (simp add: amounts_def)
  have "coerced_value sf d ''amount_due'' = map_of d ''amount_due''"
    using assms(2) by (simp add: coerced_value_def)
  then have a: "map_of (fst (validate_invoice_data sf d)) ''amount_due'' = map_of d ''amount_due''"
    using validate_ok_amount [OF assms(1) ad] by simp
  have "due_number sf d = total_number sf d"
    using assms(2) by (simp add: due_number_def amount_number_def)
  then have "map_of (fst (validate_invoice_data sf d)) ''payment_status'' =
      Some (JStr (resolve_status (total_number sf d) (total_number sf d)))"
    using validate_ok_status [OF assms(1)] by simp
  then show ?thesis using a by (simp add: resolve_status_same)
qed

theorem missing_due_resolved_as_total_witness:
  "all_fields_ok float_examples [(''total_amount'', JInt 50)] \<and>
   dict_get [(''total_amount'', JInt 50)] ''amount_due'' = JNull \<and>
   map_of (fst (validate_invoice_data float_examples [(''total_amount'', JInt 50)]))
     ''amount_due'' = None \<and>
   map_of (fst (validate_invoice_data float_examples [(''total_amount'', JInt 50)]))
     ''payment_status'' = Some (JStr ''unpaid'')"
proof -
  let ?d = "[(''total_amount'', JInt 50)]"
  have h1: "all_fields_ok float_examples ?d"
    by (simp add: all_fields_ok_def amounts_def field_ok_def dict_get_def int_to_float_def)
  have h2: "dict_get ?d ''amount_due'' = JNull"
    by (simp add: dict_get_def)
  have "total_number float_examples ?d \<noteq> Fin 0"
    by (simp add: total_number_def amount_number_def dict_get_def int_to_float_def)
  then show ?thesis
    using h1 h2 missing_due_resolved_as_total [OF h1 h2] by simp
qed

text \<open>
  Claim C6 fails as stated, at \<open>{"total_amount": "-5", "amount_due": "inf"}\<close>: the result
  holds a negative and an infinite amount.
\<close>

theorem negative_amount_counterexample:
  "validate_invoice_data float_examples
     [(''total_amount'', JStr ''-5''), (''amount_due'', JStr ''inf'')] =
   ([(''total_amount'', JFloat (Fin (- 5))), (''amount_due'', JFloat PInf),
     (''payment_status'', JStr ''unpaid'')], [])"
  by code_simp

text \<open>
  Claim C6, amended: when no conversion raises, every numeric field holds the \<open>float\<close> of
  its raw value if that was truthy, and its raw value otherwise; sign and finiteness are
  not looked at.
\<close>

theorem amounts_coerced_unchecked:
  assumes "all_fields_ok sf d" and "k \<in> set amounts"
  shows "map_of (fst (validate_invoice_data sf d)) k = coerced_value sf d k"
  using assms by (rule validate_ok_amount)

theorem amounts_coerced_unchecked_witness:
  "all_fields_ok float_examples [(''total_amount'', JStr ''-5'')] \<and>
   ''total_amount'' \<in> set amounts \<and>
   map_of (fst (validate_invoice_data float_examples [(''total_amount'', JStr ''-5'')]))
     ''total_amount'' = Some (JFloat (Fin (- 5)))"
proof -
  let ?d = "[(''total_amount'', JStr ''-5'')]"
  have h1: "all_fields_ok float_examples ?d"
    by (simp add: all_fields_ok_def amounts_def field_ok_def dict_get_def float_examples_def)
  have h2: "''total_amount'' \<in> set amounts" by (simp add: amounts_def)
  have "coerced_value float_examples ?d ''total_amount'' = Some (JFloat (Fin (- 5)))"
    by (simp add: coerced_value_def dict_get_def float_examples_def)
  then show ?thesis
    using h1 h2 amounts_coerced_unchecked [OF h1 h2] by simp
qed

section \<open>Properties of extract_invoice_data and process_invoices\<close>

text \<open>
  Claim C8 fails as stated, at the reply \<open>}{\<close>: it has both braces, and the slice is empty.
\<close>

theorem json_string_counterexample:
  "CHR ''{'' \<in> set ''}{'' \<and> CHR ''}'' \<in> set ''}{'' \<and> json_string ''}{'' = []"
  by code_simp

text \<open>
  Claim C8, amended: for a reply whose first \<open>{\<close> comes before its last \<open>}\<close>, the slice is
  the text from that \<open>{\<close> through that \<open>}\<close>; a reply with no \<open>{\<close> is used as it is.
\<close>

theorem json_string_between:
  "(CHR ''{'' \<notin> set pre \<and> CHR ''}'' \<notin> set post \<longrightarrow>
      json_string (pre @ CHR ''{'' # mid @ CHR ''}'' # post) = CHR ''{'' # mid @ [CHR ''}'']) \<and>
   (CHR ''{'' \<notin> set r \<longrightarrow> json_string r = r)"
proof (intro conjI impI)
  assume a: "CHR ''{'' \<notin> set pre \<and> CHR ''}'' \<notin> set post"
  let ?s = "pre @ CHR ''{'' # mid @ CHR ''}'' # post"
  let ?m = "CHR ''{'' # mid @ [CHR ''}'']"
  have f: "py_find (CHR ''{'') ?s = int (length pre)"
    using a by (simp add: py_find_first)
  have "py_rfind (CHR ''}'') ((pre @ CHR ''{'' # mid) @ CHR ''}'' # post) =
      int (length (pre @ CHR ''{'' # mid))"
    using a by (intro py_rfind_last) simp
  then have l: "py_rfind (CHR ''}'') ?s + 1 = int (length pre) + int (length ?m)"
    by simp
  have "py_slice (pre @ ?m @ post) (int (length pre)) (int (length pre) + int (length ?m)) = ?m"
    by (rule py_slice_middle)
  then have "py_slice ?s (int (length pre)) (int (length pre) + int (length ?m)) = ?m"
    by simp
  then show "json_string ?s = ?m"
    unfolding json_string_def f l by (simp add: Let_def)
next
  assume "CHR ''{'' \<notin> set r"
  then show "json_string r = r"
    by (simp add: json_string_def py_find_absent)
qed

theorem json_string_between_witness:
  "CHR ''{'' \<notin> set ''Sure: '' \<and> CHR ''}'' \<notin> set '' ok'' \<and>
   json_string ''Sure: {a{b}c} ok'' = ''{a{b}c}'' \<and>
   CHR ''{'' \<notin> set ''none}'' \<and> json_string ''none}'' = ''none}''"
proof -
  have h1: "CHR ''{'' \<notin> set ''Sure: '' \<and> CHR ''}'' \<notin> set '' ok''" by simp
  have h2: "CHR ''{'' \<notin> set ''none}''" by simp
  have a: "json_string (''Sure: '' @ CHR ''{'' # ''a{b}c'' @ CHR ''}'' # '' ok'') =
      CHR ''{'' # ''a{b}c'' @ [CHR ''}'']"
    using json_string_between [of "''Sure: ''" "'' ok''" "''a{b}c''" "''none}''"] h1 by blast
  have b: "json_string ''none}'' = ''none}''"
    using json_string_between [of "''Sure: ''" "'' ok''" "''a{b}c''" "''none}''"] h2 by blast
  show ?thesis using h1 h2 a b by simp
qed

text \<open>
  Claim C5: the records of a batch are, in upload order, the records of the files that
  succeed at text extraction, at the AI call and at the JSON parse (with no error marker),
  one for each such file and none for any other, and the count of processed files is
  their number; the batch is also what the files yield one by one, so a file that fails
  takes nothing from the files after it. An error payload of \<open>extract_invoice_data\<close>, once
  through \<open>json.dumps\<close> and \<open>json.loads\<close>, is taken not to decode to an object without the
  key \<open>error\<close>.
\<close>

theorem batch_isolation:
  assumes "\<And>m. \<not> passes_as_record (json_loads sv (json_dumps sv (JDict [(''error'', JStr m)])))"
  shows "data (process_invoices sv files) = List.map_filter (file_record sv) files \<and>
    processed_files (process_invoices sv files) = length (List.map_filter (file_record sv) files) \<and>
    data (process_invoices sv files) =
      concat (map (\<lambda>file. data (process_invoices sv [file])) files)"
proof -
  have p: "process_invoices sv files =
      \<lparr>data = concat (map (alone sv) files),
       processed_files = length (concat (map (alone sv) files))\<rparr>"
    by (simp add: process_invoices_def process_loop_steps)
  have "alone sv = (\<lambda>file. case file_record sv file of None \<Rightarrow> [] | Some r \<Rightarrow> [r])"
    using alone_file_record [OF assms] by (simp add: fun_eq_iff)
  then have m: "concat (map (alone sv) files) = List.map_filter (file_record sv) files"
    by (simp only: concat_option_map_filter)
  have a: "alone sv = (\<lambda>file. data (process_invoices sv [file]))"
    by (simp add: fun_eq_iff alone_def)
  have "data (process_invoices sv files) = concat (map (alone sv) files)"
    by (simp add: p)
  then have "data (process_invoices sv files) =
      concat (map (\<lambda>file. data (process_invoices sv [file])) files)"
    by (simp only: a)
  then show ?thesis using p m by simp
qed

theorem batch_isolation_witness:
  "(\<forall>m. \<not> passes_as_record (json_loads (example_services (Some example_chat))
      (json_dumps (example_services (Some example_chat)) (JDict [(''error'', JStr m)])))) \<and>
   data (process_invoices (example_services (Some example_chat)) example_batch) =
     [[(''total_amount'', JFloat (Fin 50)), (''payment_status'', JStr ''unpaid''),
       (''source_file'', JStr ''a.pdf'')],
      [(''total_amount'', JFloat (Fin 20)), (''amount_due'', JFloat (Fin 5)),
       (''payment_status'', JStr ''partial''), (''source_file'', JStr ''c.pdf'')]] \<and>
   processed_files (process_invoices (example_services (Some example_chat)) example_batch) = 2"
proof -
  let ?sv = "example_services (Some example_chat)"
  have h: "\<And>m. \<not> passes_as_record (json_loads ?sv (json_dumps ?sv (JDict [(''error'', JStr m)])))"
    by (simp add: example_services_def example_dumps_def example_loads_def passes_as_record_def)
  have r: "List.map_filter (file_record ?sv) example_batch =
     [[(''total_amount'', JFloat (Fin 50)), (''payment_status'', JStr ''unpaid''),
       (''source_file'', JStr ''a.pdf'')],
      [(''total_amount'', JFloat (Fin 20)), (''amount_due'', JFloat (Fin 5)),
       (''payment_status'', JStr ''partial''), (''source_file'', JStr ''c.pdf'')]]"
    by code_simp
  show ?thesis
    using h batch_isolation [OF h, of example_batch] by (simp add: r)
qed

text \<open>
  Claim C9: with no client configured, every extraction returns the configuration-error
  payload without reaching a service, and (\<open>json.loads\<close> decoding that payload back) no
  file of a batch yields a record.
\<close>

theorem unconfigured_refuses:
  assumes "client sv = None"
    and "json_loads sv (json_dumps sv config_error) = Inr config_error"
  shows "extract_invoice_data sv text = json_dumps sv config_error \<and>
    data (process_invoices sv files) = [] \<and>
    processed_files (process_invoices sv files) = 0"
proof -
  have "extract_invoice_data sv text = json_dumps sv config_error"
    using assms(1) by (simp add: extract_invoice_data_def config_error_def)
  moreover have "concat (map (alone sv) files) = []"
    using alone_unconfigured [OF assms] by simp
  ultimately show ?thesis
    by (simp add: process_invoices_def process_loop_steps)
qed

theorem unconfigured_refuses_witness:
  \<open>client (example_services None) = None \<and>
   json_loads (example_services None) (json_dumps (example_services None) config_error) =
     Inr config_error \<and>
   extract_invoice_data (example_services None) ''first'' =
     ''{"error": "API key not configured"}'' \<and>
   data (process_invoices (example_services None) example_files) = []\<close>
proof -
  have h1: "client (example_services None) = None"
    by (simp add: example_services_def)
  have h2: "json_loads (example_services None) (json_dumps (example_services None) config_error) =
      Inr config_error"
    by (simp add: example_services_def example_dumps_def example_loads_def config_error_def)
  have d: \<open>json_dumps (example_services None) config_error = ''{"error": "API key not configured"}''\<close>
    by (simp add: example_services_def example_dumps_def config_error_def)
  show ?thesis
    using h1 h2 d unconfigured_refuses [OF h1 h2, of "''first''" example_files] by simp
qed

end
